theory Spec2Isabelle
  imports Complex_Main "HOL-Library.Sublist"
begin

section \<open>Strings\<close>

text \<open>
  Python strings are sequences of code points. They are modelled as \<^typ>\<open>string\<close>, a
  \<^typ>\<open>char\<close> standing for a code point below 256, and the character classes of
  \<^verbatim>\<open>str.strip\<close>, \<^verbatim>\<open>str.lower\<close> and of the regular expression class
  \<^verbatim>\<open>\w\<close> are those of Python 3 on that range.
\<close>

definition code :: "char \<Rightarrow> nat" where
  "code c = of_char c"

definition newline :: char where
  "newline = CHR 0x0A"

definition quote :: char where
  "quote = CHR 0x27"

text \<open>\<^verbatim>\<open>str.isspace\<close>: the characters \<^verbatim>\<open>str.strip()\<close> removes.\<close>

definition is_space :: "char \<Rightarrow> bool" where
  "is_space c =
     (let n = code c
      in (9 \<le> n \<and> n \<le> 13) \<or> (28 \<le> n \<and> n \<le> 32) \<or> n = 133 \<or> n = 160)"

text \<open>The class \<^verbatim>\<open>\w\<close> of a \<^verbatim>\<open>str\<close> pattern: alphanumeric characters and the underscore.\<close>

definition is_word :: "char \<Rightarrow> bool" where
  "is_word c =
     (let n = code c
      in (48 \<le> n \<and> n \<le> 57) \<or> (65 \<le> n \<and> n \<le> 90) \<or> n = 95 \<or> (97 \<le> n \<and> n \<le> 122)
         \<or> n = 170 \<or> n = 178 \<or> n = 179 \<or> n = 181 \<or> n = 185 \<or> n = 186
         \<or> (188 \<le> n \<and> n \<le> 190) \<or> (192 \<le> n \<and> n \<le> 214) \<or> (216 \<le> n \<and> n \<le> 246)
         \<or> (248 \<le> n \<and> n \<le> 255))"

definition strip :: "string \<Rightarrow> string" where
  "strip s = rev (dropWhile is_space (rev (dropWhile is_space s)))"

definition lower_char :: "char \<Rightarrow> char" where
  "lower_char c =
     (let n = code c
      in if (65 \<le> n \<and> n \<le> 90) \<or> (192 \<le> n \<and> n \<le> 214) \<or> (216 \<le> n \<and> n \<le> 222)
         then char_of (n + 32) else c)"

definition lower :: "string \<Rightarrow> string" where
  "lower s = map lower_char s"

text \<open>
  \<^verbatim>\<open>str.capitalize\<close>, used on the role names only: the first character in upper case
  (for the letters a to z), the others in lower case.
\<close>

definition upper_char :: "char \<Rightarrow> char" where
  "upper_char c = (let n = code c in if 97 \<le> n \<and> n \<le> 122 then char_of (n - 32) else c)"

definition capitalize :: "string \<Rightarrow> string" where
  "capitalize s = (case s of [] \<Rightarrow> [] | c # cs \<Rightarrow> upper_char c # lower cs)"

text \<open>\<^verbatim>\<open>sep.join(parts)\<close>.\<close>

fun join :: "string \<Rightarrow> string list \<Rightarrow> string" where
  "join sep [] = []"
| "join sep [p] = p"
| "join sep (p # q # ps) = p @ sep @ join sep (q # ps)"

section \<open>Exceptions\<close>

text \<open>An exception is a value: its class and the text \<^verbatim>\<open>str(e)\<close> gives.\<close>

datatype exn_class =
    ConnectionError | ValueError | KeyError | IndexError | TypeError | AttributeError
  | EOFError | NotImplementedError | ToolError

datatype exn = Exn (exn_class: exn_class) (exn_text: string)

section \<open>The tool invocation grammar\<close>

text \<open>
  \<^verbatim>\<open>re.compile(r"^(\w+)\((.*)\)$", re.DOTALL).match(s)\<close>, returning the two groups.
  The first group is greedy and the character after it must be an opening parenthesis,
  which is no word character, so only the maximal run of word characters can match.
  The second group is greedy and spans newlines; \<^verbatim>\<open>$\<close> matches at the end of the
  string and before a newline that ends the string, so the group is followed by a closing
  parenthesis that is the last character, or the last before a final newline.
\<close>

definition tool_call_match :: "string \<Rightarrow> (string \<times> string) option" where
  "tool_call_match s =
     (let name = takeWhile is_word s; rest = dropWhile is_word s
      in if name = [] then None
         else (case rest of
                 [] \<Rightarrow> None
               | c # r \<Rightarrow>
                   if c \<noteq> CHR ''('' then None
                   else if r \<noteq> [] \<and> last r = CHR '')'' then Some (name, butlast r)
                   else if 2 \<le> length r \<and> last r = newline \<and> last (butlast r) = CHR '')''
                   then Some (name, butlast (butlast r))
                   else None))"

section \<open>Messages and tools\<close>

datatype role = System | User | Assistant

fun role_str :: "role \<Rightarrow> string" where
  "role_str System = ''system''"
| "role_str User = ''user''"
| "role_str Assistant = ''assistant''"

record message =
  role :: role
  content :: string

text \<open>
  The class \<^verbatim>\<open>Tool\<close> is not among the sources; a tool is its name, its description
  and what its method \<^verbatim>\<open>run\<close> does with the argument string (the field
  \<open>tool_run\<close>): it returns a string or raises.
\<close>

record tool =
  name :: string
  tool_run :: "string \<Rightarrow> exn + string"
  description :: string

text \<open>
  Lines 97 to 107 of \<^verbatim>\<open>Agent.chat_completion\<close>: the answer computed from the model's
  reply, given the registry \<^verbatim>\<open>self.tools\<close>.
\<close>

definition process_response :: "(string \<rightharpoonup> tool) \<Rightarrow> string \<Rightarrow> exn + string" where
  "process_response registry response =
     (case (case tool_call_match (strip response) of
              Some (nm, arg) \<Rightarrow>
                (case registry nm of
                   Some t \<Rightarrow> (if arg \<noteq> [] then tool_run t arg else tool_run t [])
                 | None \<Rightarrow> Inr [])
            | None \<Rightarrow> Inr response) of
        Inl e \<Rightarrow> Inl e
      | Inr result \<Rightarrow> Inr (strip result))"

section \<open>The agent\<close>

text \<open>
  The attributes of \<^verbatim>\<open>Agent\<close>, and after them what the agent acts on: the model behind
  \<^verbatim>\<open>self.model.chat_completion\<close>, whose reply may depend on the requests it has
  already received, the log of those requests, the text printed, and the content of the
  transcript file (\<open>None\<close> when there is no file).
\<close>

record agent =
  tools :: "string \<rightharpoonup> tool"
  core_identity :: string
  long_memory :: string
  max_long_memory :: int
  disable_long_memory :: bool
  short_memory :: "message list"
  max_short_memory :: int
  disable_short_memory :: bool
  model :: "message list list \<Rightarrow> message list \<Rightarrow> exn + string"
  model_log :: "message list list"
  stdout :: "string list"
  transcript :: "string option"

text \<open>The keys \<^verbatim>\<open>Agent.__init__\<close> reads from the configuration, absent or set.\<close>

record config =
  LONG_MEMORY_SIZE :: "int option"
  DISABLE_LONG_MEMORY :: "bool option"
  SHORT_MEMORY_SIZE :: "int option"
  DISABLE_SHORT_MEMORY :: "bool option"

definition config_get :: "'a option \<Rightarrow> 'a \<Rightarrow> 'a" where
  "config_get v d = (case v of None \<Rightarrow> d | Some x \<Rightarrow> x)"

definition init_agent ::
  "config \<Rightarrow> (message list list \<Rightarrow> message list \<Rightarrow> exn + string) \<Rightarrow> tool list \<Rightarrow> string \<Rightarrow> agent"
where
  "init_agent cfg mdl tls identity =
     \<lparr> tools = map_of (rev (map (\<lambda>t. (name t, t)) tls)),
       core_identity = identity,
       long_memory = [],
       max_long_memory = config_get (LONG_MEMORY_SIZE cfg) 5096,
       disable_long_memory = config_get (DISABLE_LONG_MEMORY cfg) True,
       short_memory = [],
       max_short_memory = config_get (SHORT_MEMORY_SIZE cfg) 20,
       disable_short_memory = config_get (DISABLE_SHORT_MEMORY cfg) False,
       model = mdl,
       model_log = [],
       stdout = [],
       transcript = None \<rparr>"

text \<open>One call of \<^verbatim>\<open>self.model.chat_completion(messages)\<close>.\<close>

definition call_model :: "message list \<Rightarrow> agent \<Rightarrow> (exn + string) \<times> agent" where
  "call_model msgs s = (model s (model_log s) msgs, s\<lparr>model_log := model_log s @ [msgs]\<rparr>)"

subsection \<open>Prompt assembly\<close>

definition format_message :: "message \<Rightarrow> string" where
  "format_message m = capitalize (role_str (role m)) @ '': '' @ content m"

definition build_prompt :: "agent \<Rightarrow> string \<Rightarrow> message list" where
  "build_prompt s user_input =
     (let messages = [\<lparr>role = System, content = core_identity s\<rparr>];
          messages =
            (if \<not> disable_long_memory s \<and> long_memory s \<noteq> []
             then messages @ [\<lparr>role = System,
                               content = ''Long-Term Memory:'' @ [newline] @ long_memory s\<rparr>]
             else messages);
          messages =
            (if short_memory s \<noteq> []
             then foldl (\<lambda>acc m. acc @ [\<lparr>role = System, content = format_message m\<rparr>])
                        (messages @ [\<lparr>role = System, content = ''Recent Interactions:''\<rparr>])
                        (short_memory s)
             else messages)
      in messages @ [\<lparr>role = User, content = user_input\<rparr>])"

subsection \<open>Memory update\<close>

text \<open>
  The loop \<^verbatim>\<open>while len(self.short_memory) > self._max_short_memory:
  popped_messages.append(self.short_memory.pop(0))\<close>. It returns how it ended, the window
  and the popped messages; \<^verbatim>\<open>pop(0)\<close> on the empty list raises \<^verbatim>\<open>IndexError\<close>,
  which a negative maximum leads to.
\<close>

fun evict :: "int \<Rightarrow> message list \<Rightarrow> message list \<Rightarrow> (exn + unit) \<times> message list \<times> message list"
where
  "evict W [] popped =
     (if 0 > W then (Inl (Exn IndexError ''pop from empty list''), [], popped)
      else (Inr (), [], popped))"
| "evict W (m # ms) popped =
     (if int (length (m # ms)) > W then evict W ms (popped @ [m])
      else (Inr (), m # ms, popped))"

definition instruction_content :: "string \<Rightarrow> message list \<Rightarrow> message list \<Rightarrow> string" where
  "instruction_content previous popped window =
     ''Update the long-term memory summary for this agent.'' @ [newline]
     @ ''Previous summary:'' @ [newline]
     @ previous @ [newline, newline]
     @ ''Messages that just dropped off short-term memory:'' @ [newline]
     @ join [newline] (map format_message popped) @ [newline, newline]
     @ ''Current short-term memory:'' @ [newline]
     @ join [newline] (map format_message window) @ [newline, newline]
     @ ''Please write a concise English summary that includes important context from all of the above, ''
     @ ''without duplicating short-term memory. Respond in English only.''"

definition handle_memory :: "string \<Rightarrow> string \<Rightarrow> agent \<Rightarrow> (exn + unit) \<times> agent" where
  "handle_memory user_input assistant_response s =
     (let s0 = (if disable_short_memory s then s else s);
          s1 = s0\<lparr>short_memory := short_memory s0 @ [\<lparr>role = User, content = user_input\<rparr>]\<rparr>;
          s2 = s1\<lparr>short_memory :=
                    short_memory s1 @ [\<lparr>role = Assistant, content = assistant_response\<rparr>]\<rparr>
      in case evict (max_short_memory s2) (short_memory s2) [] of
           (Inl e, window, popped) \<Rightarrow> (Inl e, s2\<lparr>short_memory := window\<rparr>)
         | (Inr u, window, popped) \<Rightarrow>
             (let s3 = s2\<lparr>short_memory := window\<rparr>
              in if popped \<noteq> [] \<and> \<not> disable_long_memory s3
                 then (let summary_prompt =
                             [\<lparr>role = System,
                               content = instruction_content (long_memory s3) popped
                                           (short_memory s3)\<rparr>]
                       in case call_model summary_prompt s3 of
                            (Inl e, s4) \<Rightarrow> (Inl e, s4)
                          | (Inr summary, s4) \<Rightarrow> (Inr (), s4\<lparr>long_memory := strip summary\<rparr>))
                 else (Inr (), s3)))"

subsection \<open>One turn\<close>

definition chat_completion :: "string \<Rightarrow> agent \<Rightarrow> (exn + string) \<times> agent" where
  "chat_completion user_input s =
     (let messages = build_prompt s user_input
      in case call_model messages s of
           (Inl e, s1) \<Rightarrow> (Inl e, s1)
         | (Inr response, s1) \<Rightarrow>
             (case process_response (tools s1) response of
                Inl e \<Rightarrow> (Inl e, s1)
              | Inr result \<Rightarrow>
                  (case handle_memory user_input result s1 of
                     (Inl e, s2) \<Rightarrow> (Inl e, s2)
                   | (Inr u, s2) \<Rightarrow> (Inr result, s2))))"

subsection \<open>The interaction loop\<close>

definition file_header :: string where
  "file_header = ''Agent Transcript'' @ [newline] @ ''================'' @ [newline, newline]"

definition file_footer :: string where
  "file_footer = ''================'' @ [newline, newline]"

text \<open>\<^verbatim>\<open>open(path, "a")\<close> followed by a write.\<close>

definition append_file :: "string option \<Rightarrow> string \<Rightarrow> string option" where
  "append_file f txt = Some (case f of None \<Rightarrow> txt | Some c \<Rightarrow> c @ txt)"

text \<open>
  The \<^verbatim>\<open>while True\<close> loop of \<^verbatim>\<open>Agent.run\<close> on the lines the user types; at the
  end of the input \<^verbatim>\<open>input\<close> raises \<^verbatim>\<open>EOFError\<close>. The loop has no handler: an exception
  of \<^verbatim>\<open>chat_completion\<close> leaves it.
\<close>

fun run_loop :: "string list \<Rightarrow> agent \<Rightarrow> (exn + unit) \<times> agent" where
  "run_loop [] s =
     (Inl (Exn EOFError ''EOF when reading a line''), s\<lparr>stdout := stdout s @ [''You: '']\<rparr>)"
| "run_loop (line # rest) s =
     (let s0 = s\<lparr>stdout := stdout s @ [''You: '']\<rparr>;
          user_input = strip line
      in if lower user_input \<in> {''exit'', ''quit''}
         then (Inr (), s0\<lparr>stdout := stdout s0 @ [''Goodbye!'']\<rparr>)
         else (case chat_completion user_input s0 of
                 (Inl e, s1) \<Rightarrow> (Inl e, s1)
               | (Inr result, s1) \<Rightarrow>
                   run_loop rest
                     (s1\<lparr>stdout := stdout s1 @ [''Agent: '' @ result],
                         transcript :=
                           append_file
                             (append_file (transcript s1)
                                (''You: '' @ user_input @ [newline, newline]))
                             (''Agent: '' @ result @ [newline, newline])\<rparr>)))"

definition run :: "string list \<Rightarrow> agent \<Rightarrow> (exn + unit) \<times> agent" where
  "run inputs s =
     (let s0 = s\<lparr>stdout := stdout s @ [''Type '' @ [quote] @ ''exit'' @ [quote] @ '' or ''
                                          @ [quote] @ ''quit'' @ [quote] @ '' to end the chat.''],
                 transcript := Some file_header\<rparr>
      in case run_loop inputs s0 of
           (Inl e, s1) \<Rightarrow> (Inl e, s1)
         | (Inr u, s1) \<Rightarrow>
             (Inr (),
              if transcript s1 = Some file_header then s1\<lparr>transcript := None\<rparr>
              else s1\<lparr>transcript := append_file (transcript s1) file_footer\<rparr>))"

section \<open>The model client\<close>

text \<open>What \<^verbatim>\<open>response.json()\<close> can return.\<close>

datatype json =
    JNull | JBool bool | JInt int | JFloat real | JStr string
  | JArr "json list" | JObj "(string \<times> json) list"

fun type_name :: "json \<Rightarrow> string" where
  "type_name JNull = ''NoneType''"
| "type_name (JBool b) = ''bool''"
| "type_name (JInt i) = ''int''"
| "type_name (JFloat x) = ''float''"
| "type_name (JStr s) = ''str''"
| "type_name (JArr xs) = ''list''"
| "type_name (JObj kvs) = ''dict''"

definition not_subscriptable :: "json \<Rightarrow> exn" where
  "not_subscriptable v =
     Exn TypeError ([quote] @ type_name v @ [quote] @ '' object is not subscriptable'')"

text \<open>\<^verbatim>\<open>v[key]\<close> for a string key; of a repeated key of an object the last value counts.\<close>

fun get_key :: "json \<Rightarrow> string \<Rightarrow> exn + json" where
  "get_key (JObj kvs) k =
     (case map_of (rev kvs) k of
        Some v \<Rightarrow> Inr v
      | None \<Rightarrow> Inl (Exn KeyError ([quote] @ k @ [quote])))"
| "get_key (JArr xs) k =
     Inl (Exn TypeError ''list indices must be integers or slices, not str'')"
| "get_key (JStr s) k =
     Inl (Exn TypeError (''string indices must be integers, not '' @ [quote] @ ''str'' @ [quote]))"
| "get_key v k = Inl (not_subscriptable v)"

text \<open>\<^verbatim>\<open>v[0]\<close>; the keys of an object are strings, so \<^verbatim>\<open>0\<close> is none of them.\<close>

fun get_first :: "json \<Rightarrow> exn + json" where
  "get_first (JArr []) = Inl (Exn IndexError ''list index out of range'')"
| "get_first (JArr (x # xs)) = Inr x"
| "get_first (JStr []) = Inl (Exn IndexError ''string index out of range'')"
| "get_first (JStr (c # cs)) = Inr (JStr [c])"
| "get_first (JObj kvs) = Inl (Exn KeyError ''0'')"
| "get_first v = Inl (not_subscriptable v)"

definition bind_exn :: "exn + 'a \<Rightarrow> ('a \<Rightarrow> exn + 'b) \<Rightarrow> exn + 'b" where
  "bind_exn r f = (case r of Inl e \<Rightarrow> Inl e | Inr v \<Rightarrow> f v)"

text \<open>
  The answer of the endpoint: its status and its body, which is JSON or makes
  \<^verbatim>\<open>response.json()\<close> raise a \<^verbatim>\<open>ValueError\<close> with some text.
\<close>

record response =
  status_code :: int
  body :: "string + json"

definition response_json :: "response \<Rightarrow> exn + json" where
  "response_json r = (case body r of Inl txt \<Rightarrow> Inl (Exn ValueError txt) | Inr j \<Rightarrow> Inr j)"

text \<open>The request body of \<^verbatim>\<open>NexaClient.chat\<close>, without the temperature (a float).\<close>

record chat_request =
  req_model :: string
  req_messages :: "message list"
  req_max_tokens :: int
  req_stream :: bool

text \<open>
  \<^verbatim>\<open>NexaClient.chat\<close>, given what \<^verbatim>\<open>requests.post\<close> does with the request: it
  returns a response or raises. The call is made before the \<^verbatim>\<open>try\<close> block, which
  holds only the reading of the response.
\<close>

definition chat :: "(chat_request \<Rightarrow> exn + response) \<Rightarrow> message list \<Rightarrow> exn + json" where
  "chat post msgs =
     (let data = \<lparr>req_model = ''NexaAI/Llama3.2-3B-NPU-Turbo'', req_messages = msgs,
                  req_max_tokens = 256, req_stream = False\<rparr>
      in case post data of
           Inl e \<Rightarrow> Inl e
         | Inr chat_response \<Rightarrow>
             (case bind_exn (bind_exn (bind_exn (bind_exn (response_json chat_response)
                       (\<lambda>j. get_key j ''choices'')) get_first)
                       (\<lambda>j. get_key j ''message'')) (\<lambda>j. get_key j ''content'') of
                Inr v \<Rightarrow> Inr v
              | Inl e \<Rightarrow>
                  if exn_class e = ValueError then Inr (JStr ''Response is not valid JSON'')
                  else Inr (JStr (''Chat request failed. Error: '' @ exn_text e))))"

text \<open>
  \<^verbatim>\<open>ModelInterface.chat_completion\<close>, given the provider's name and the \<^verbatim>\<open>chat\<close>
  method of the client.
\<close>

definition model_chat_completion ::
  "string option \<Rightarrow> (message list \<Rightarrow> exn + json) \<Rightarrow> message list \<Rightarrow> bool \<Rightarrow> exn + json"
where
  "model_chat_completion model_provider client_chat msgs stream =
     (case model_provider of
        None \<Rightarrow> Inl (Exn ValueError ''MODEL_PROVIDER is not set in config.yaml'')
      | Some p \<Rightarrow>
          if p = [] then Inl (Exn ValueError ''MODEL_PROVIDER is not set in config.yaml'')
          else if lower p = ''anythingllm'' then
            (if stream
             then Inl (Exn NotImplementedError ''AnythingLLM streaming chat is not implemented yet.'')
             else client_chat msgs)
          else if lower p = ''lmstudio'' then
            (if stream
             then Inl (Exn NotImplementedError ''LM Studio streaming chat is not implemented yet.'')
             else client_chat msgs)
          else if lower p = ''nexa'' then
            (if stream
             then Inl (Exn NotImplementedError ''Nexa streaming chat is not implemented yet.'')
             else client_chat msgs)
          else Inl (Exn ValueError (''Unsupported MODEL_PROVIDER: '' @ p)))"

text \<open>
  The agent calls \<^verbatim>\<open>strip\<close> on what the model interface returns, at once; on a value
  that is no string this raises \<^verbatim>\<open>AttributeError\<close>.
\<close>

definition as_str :: "exn + json \<Rightarrow> exn + string" where
  "as_str r =
     (case r of
        Inl e \<Rightarrow> Inl e
      | Inr (JStr s) \<Rightarrow> Inr s
      | Inr v \<Rightarrow>
          Inl (Exn AttributeError
                 ([quote] @ type_name v @ [quote] @ '' object has no attribute ''
                  @ [quote] @ ''strip'' @ [quote])))"

text \<open>The model of an agent configured for the Nexa provider, over a given transport.\<close>

definition nexa_model ::
  "(chat_request \<Rightarrow> exn + response) \<Rightarrow> message list list \<Rightarrow> message list \<Rightarrow> exn + string"
where
  "nexa_model post lg msgs = as_str (model_chat_completion (Some ''nexa'') (chat post) msgs False)"

section \<open>Fixtures\<close>

text \<open>
  The tool and the model of \<^verbatim>\<open>tests/core/test_agent.py\<close> (a model that gives one fixed
  reply), a configuration with the three memory keys set, and a transport whose endpoint
  is unreachable.
\<close>

definition dummy_tool_func :: "string \<Rightarrow> exn + string" where
  "dummy_tool_func arg = Inr (if arg \<noteq> [] then ''Echo: '' @ arg else ''Echo:'')"

definition echo_tool :: tool where
  "echo_tool = \<lparr>name = ''Echo'', tool_run = dummy_tool_func, description = ''Echoes input''\<rparr>"

definition fixed_reply :: "string \<Rightarrow> message list list \<Rightarrow> message list \<Rightarrow> exn + string" where
  "fixed_reply r lg msgs = Inr r"

definition example_config :: "int \<Rightarrow> bool \<Rightarrow> bool \<Rightarrow> config" where
  "example_config W no_long no_short =
     \<lparr>LONG_MEMORY_SIZE = None, DISABLE_LONG_MEMORY = Some no_long,
      SHORT_MEMORY_SIZE = Some W, DISABLE_SHORT_MEMORY = Some no_short\<rparr>"

definition example_agent :: "int \<Rightarrow> bool \<Rightarrow> bool \<Rightarrow> string \<Rightarrow> agent" where
  "example_agent W no_long no_short r =
     init_agent (example_config W no_long no_short) (fixed_reply r) [echo_tool]
       ''Test agent identity''"

definition unreachable_post :: "chat_request \<Rightarrow> exn + response" where
  "unreachable_post req = Inl (Exn ConnectionError ''Connection refused'')"

definition nexa_agent :: "(chat_request \<Rightarrow> exn + response) \<Rightarrow> agent" where
  "nexa_agent post =
     init_agent (example_config 20 True False) (nexa_model post) [echo_tool]
       ''Test agent identity''"



section \<open>Auxiliary facts\<close>

text \<open>
  The eviction loop in closed form: it pops the first \<open>length xs - W\<close> messages (all of
  them when \<open>W\<close> is negative, and then raises), in their order, and leaves the others.
\<close>

lemma evict_closed:
  "evict W xs popped =
     (if W < 0 then Inl (Exn IndexError ''pop from empty list'') else Inr (),
      drop (nat (int (length xs) - W)) xs,
      popped @ take (nat (int (length xs) - W)) xs)"
proof (induction xs arbitrary: popped)
  case Nil
  then show ?case by simp
next
  case (Cons m ms)
  show ?case
  proof (cases "int (length (m # ms)) > W")
    case True
    then have k: "nat (int (length (m # ms)) - W) = Suc (nat (int (length ms) - W))"
      by simp
    show ?thesis using True Cons.IH [of "popped @ [m]"] by (simp only: evict.simps k if_True drop_Suc_Cons take_Suc_Cons append_assoc append_Cons append_Nil)
  next
    case False
    then show ?thesis by auto
  qed
qed

text \<open>The memory update in closed form, on the window after the two messages are appended.\<close>

lemma handle_memory_closed:
  "handle_memory user_input assistant_response s =
     (let xs = short_memory s @ [\<lparr>role = User, content = user_input\<rparr>,
                                 \<lparr>role = Assistant, content = assistant_response\<rparr>];
          k = nat (int (length xs) - max_short_memory s);
          s3 = s\<lparr>short_memory := drop k xs\<rparr>;
          req = [\<lparr>role = System,
                  content = instruction_content (long_memory s) (take k xs) (drop k xs)\<rparr>]
      in if max_short_memory s < 0 then (Inl (Exn IndexError ''pop from empty list''), s3)
         else if take k xs \<noteq> [] \<and> \<not> disable_long_memory s
         then (case model s (model_log s) req of
                 Inl e \<Rightarrow> (Inl e, s3\<lparr>model_log := model_log s @ [req]\<rparr>)
               | Inr summary \<Rightarrow>
                   (Inr (), s3\<lparr>model_log := model_log s @ [req], long_memory := strip summary\<rparr>))
         else (Inr (), s3))"
  by (simp add: handle_memory_def evict_closed call_model_def Let_def split: sum.splits)

lemma handle_memory_window_gen:
  assumes "xs = short_memory s @ [\<lparr>role = User, content = u\<rparr>, \<lparr>role = Assistant, content = a\<rparr>]"
    and "k = nat (int (length xs) - max_short_memory s)"
  shows "short_memory (snd (handle_memory u a s)) = drop k xs"
proof -
  have "handle_memory u a s =
          (if max_short_memory s < 0
           then (Inl (Exn IndexError ''pop from empty list''), s\<lparr>short_memory := drop k xs\<rparr>)
           else if take k xs \<noteq> [] \<and> \<not> disable_long_memory s
           then (case model s (model_log s)
                        [\<lparr>role = System,
                           content = instruction_content (long_memory s) (take k xs) (drop k xs)\<rparr>] of
                   Inl e \<Rightarrow>
                     (Inl e,
                      s\<lparr>short_memory := drop k xs,
                        model_log := model_log s @
                          [[\<lparr>role = System,
                              content = instruction_content (long_memory s) (take k xs)
                                          (drop k xs)\<rparr>]]\<rparr>)
                 | Inr summary \<Rightarrow>
                     (Inr (),
                      s\<lparr>short_memory := drop k xs,
                        model_log := model_log s @
                          [[\<lparr>role = System,
                              content = instruction_content (long_memory s) (take k xs)
                                          (drop k xs)\<rparr>]],
                        long_memory := strip summary\<rparr>))
           else (Inr (), s\<lparr>short_memory := drop k xs\<rparr>))"
    unfolding assms by (rule handle_memory_closed [unfolded Let_def])
  then show ?thesis
    by (simp split: sum.splits)
qed

lemma window_shift:
  "nat (int (length (short_memory s @ [m1, m2])) - W) = nat (int (length (short_memory s)) + 2 - W)"
  by simp

lemma handle_memory_window:
  "short_memory (snd (handle_memory u a s)) =
     drop (nat (int (length (short_memory s)) + 2 - max_short_memory s))
       (short_memory s @ [\<lparr>role = User, content = u\<rparr>, \<lparr>role = Assistant, content = a\<rparr>])"
  using handle_memory_window_gen [OF refl refl, where s = s and u = u and a = a] by (simp only: window_shift)

lemma handle_memory_max: "max_short_memory (snd (handle_memory u a s)) = max_short_memory s"
  by (simp add: handle_memory_closed Let_def split: sum.splits)

text \<open>
  With a maximum that is not negative and long-term memory disabled, the memory update
  returns.
\<close>

lemma handle_memory_returns:
  "0 \<le> max_short_memory s \<Longrightarrow> disable_long_memory s \<Longrightarrow> fst (handle_memory u a s) = Inr ()"
  by (simp add: handle_memory_closed Let_def)

lemma foldl_append_map: "foldl (\<lambda>acc m. acc @ [f m]) init xs = init @ map f xs"
  by (induction xs arbitrary: init) simp_all


text \<open>The text of a message line, and the lines of a joined text.\<close>

lemma capitalize_role:
  "capitalize (role_str r)
     = (case r of System \<Rightarrow> ''System'' | User \<Rightarrow> ''User'' | Assistant \<Rightarrow> ''Assistant'')"
proof -
  have s: "capitalize (role_str System) = ''System''" by code_simp
  have u: "capitalize (role_str User) = ''User''" by code_simp
  have a: "capitalize (role_str Assistant) = ''Assistant''" by code_simp
  show ?thesis by (cases r) (simp_all only: s u a role.case)
qed

lemma format_message_text:
  "format_message m
     = (case role m of System \<Rightarrow> ''System'' | User \<Rightarrow> ''User'' | Assistant \<Rightarrow> ''Assistant'')
       @ '': '' @ content m"
  by (simp only: format_message_def capitalize_role)




text \<open>
  A reply in the form of a tool call whose identifier is not registered gives the empty
  answer; a registered tool gives what it returns, stripped.
\<close>

lemma process_response_unknown_tool:
  "tool_call_match (strip response) = Some (nm, arg) \<Longrightarrow> registry nm = None
   \<Longrightarrow> process_response registry response = Inr []"
  by (simp add: process_response_def strip_def)



text \<open>
  Once \<^verbatim>\<open>requests.post\<close> has returned a response, whatever its status and body,
  \<^verbatim>\<open>NexaClient.chat\<close> returns a value.
\<close>

lemma chat_returns_on_response:
  "post \<lparr>req_model = ''NexaAI/Llama3.2-3B-NPU-Turbo'', req_messages = msgs,
          req_max_tokens = 256, req_stream = False\<rparr> = Inr resp
   \<Longrightarrow> \<exists>v. chat post msgs = Inr v"
  by (simp add: chat_def Let_def split: sum.splits)

section \<open>The claims\<close>

text \<open>
  C1. A reply that, trimmed, has the form of a tool call with an identifier absent from the
  registry: \<^verbatim>\<open>Agent.chat_completion\<close> is evaluated on the reply \<^verbatim>\<open>Foo(bar)\<close> with
  only the tool \<^verbatim>\<open>Echo\<close> registered. The reply matches the grammar, the identifier is
  not registered, and the answer returned is the empty string, not the reply.
\<close>

theorem chat_completion_unknown_tool:
  "tool_call_match (strip ''Foo(bar)'') = Some (''Foo'', ''bar'')
   \<and> tools (example_agent 20 True False ''Foo(bar)'') ''Foo'' = None
   \<and> fst (chat_completion ''hi'' (example_agent 20 True False ''Foo(bar)'')) = Inr []"
proof (intro conjI)
  show "tool_call_match (strip ''Foo(bar)'') = Some (''Foo'', ''bar'')" by code_simp
  show "tools (example_agent 20 True False ''Foo(bar)'') ''Foo'' = None"
    by (simp add: example_agent_def init_agent_def echo_tool_def)
  show "fst (chat_completion ''hi'' (example_agent 20 True False ''Foo(bar)'')) = Inr []"
    by code_simp
qed

text \<open>
  C2, as the code has it. \<^verbatim>\<open>Agent._handle_memory\<close> does not depend on
  \<^verbatim>\<open>DISABLE_SHORT_MEMORY\<close>: with the key true the call has the outcome and makes the
  changes it has with the key false, nothing is skipped, and the window is the old
  window with the user and assistant messages appended, less what is evicted from the
  front.
\<close>

theorem handle_memory_ignores_disable_short_memory:
  "fst (handle_memory u a (s\<lparr>disable_short_memory := True\<rparr>))
     = fst (handle_memory u a (s\<lparr>disable_short_memory := False\<rparr>))
   \<and> snd (handle_memory u a (s\<lparr>disable_short_memory := True\<rparr>))
     = (snd (handle_memory u a (s\<lparr>disable_short_memory := False\<rparr>)))\<lparr>disable_short_memory := True\<rparr>
   \<and> short_memory (snd (handle_memory u a (s\<lparr>disable_short_memory := True\<rparr>)))
     = drop (nat (int (length (short_memory s)) + 2 - max_short_memory s))
         (short_memory s @ [\<lparr>role = User, content = u\<rparr>, \<lparr>role = Assistant, content = a\<rparr>])"
proof (intro conjI)
  show "fst (handle_memory u a (s\<lparr>disable_short_memory := True\<rparr>))
     = fst (handle_memory u a (s\<lparr>disable_short_memory := False\<rparr>))"
    by (simp add: handle_memory_closed Let_def split: sum.splits)
  show "snd (handle_memory u a (s\<lparr>disable_short_memory := True\<rparr>))
     = (snd (handle_memory u a (s\<lparr>disable_short_memory := False\<rparr>)))\<lparr>disable_short_memory := True\<rparr>"
    by (simp add: handle_memory_closed Let_def split: sum.splits)
  show "short_memory (snd (handle_memory u a (s\<lparr>disable_short_memory := True\<rparr>)))
     = drop (nat (int (length (short_memory s)) + 2 - max_short_memory s))
         (short_memory s @ [\<lparr>role = User, content = u\<rparr>, \<lparr>role = Assistant, content = a\<rparr>])"
    using handle_memory_window [of u a "s\<lparr>disable_short_memory := True\<rparr>"] by simp
qed

text \<open>
  C2 as stated fails: with \<^verbatim>\<open>DISABLE_SHORT_MEMORY\<close> true, long-term memory enabled and
  a window of size 1, a memory update evicts a message, calls the model and replaces the
  summary; the summarization is not skipped.
\<close>

theorem disable_short_memory_counterexample:
  "\<not> (disable_short_memory (example_agent 1 False True ''S'')
       \<longrightarrow> model_log (snd (handle_memory ''u'' ''a'' (example_agent 1 False True ''S'')))
             = model_log (example_agent 1 False True ''S'')
           \<and> long_memory (snd (handle_memory ''u'' ''a'' (example_agent 1 False True ''S'')))
             = long_memory (example_agent 1 False True ''S''))"
  by code_simp

text \<open>
  C3. A session over the Nexa client whose endpoint is unreachable:
  \<^verbatim>\<open>requests.post\<close> raises outside the \<^verbatim>\<open>try\<close> block of \<^verbatim>\<open>NexaClient.chat\<close>, and
  the exception leaves \<^verbatim>\<open>Agent.run\<close> at the first turn: after the first prompt
  nothing is printed, no answer and no second prompt, and the window stays empty.
\<close>

theorem run_unreachable_endpoint:
  "fst (run [''hello'', ''quit''] (nexa_agent unreachable_post))
     = Inl (Exn ConnectionError ''Connection refused'')
   \<and> tl (stdout (snd (run [''hello'', ''quit''] (nexa_agent unreachable_post)))) = [''You: '']
   \<and> short_memory (snd (run [''hello'', ''quit''] (nexa_agent unreachable_post))) = []"
  by code_simp

text \<open>
  C4. Whenever the memory update returns, the window holds at most
  \<^verbatim>\<open>SHORT_MEMORY_SIZE\<close> messages, from any state and for any maximum. (A negative
  maximum makes the update raise; see \<open>handle_memory_returns\<close> for when it returns.)
\<close>

theorem handle_memory_window_bound:
  assumes "fst (handle_memory u a s) = Inr ()"
  shows "int (length (short_memory (snd (handle_memory u a s)))) \<le> max_short_memory s"
proof -
  have "\<not> max_short_memory s < 0"
    using assms by (auto simp: handle_memory_closed Let_def)
  then show ?thesis
    by (simp only: handle_memory_window length_drop length_append) simp
qed

theorem handle_memory_window_bound_witness:
  "fst (handle_memory ''second'' ''reply'' (snd (handle_memory ''first'' ''reply'' (example_agent 1 True False ''Hello, world!'')))) = Inr ()
   \<and> int (length (short_memory (snd (handle_memory ''second'' ''reply'' (snd (handle_memory ''first'' ''reply'' (example_agent 1 True False ''Hello, world!''))))))) \<le> max_short_memory (snd (handle_memory ''first'' ''reply'' (example_agent 1 True False ''Hello, world!'')))"
proof -
  have h: "fst (handle_memory ''second'' ''reply'' (snd (handle_memory ''first'' ''reply'' (example_agent 1 True False ''Hello, world!'')))) = Inr ()"
    by code_simp
  show ?thesis
    by (rule conjI [OF h handle_memory_window_bound [OF h]])
qed

text \<open>
  C5. Eviction is first in, first out: the memory update appends the user and the
  assistant message to the back of the window; the loop then pops the first \<open>k\<close>
  messages of that list, \<open>k\<close> being the excess of its length over the maximum, collects
  them in that order, and leaves the remaining messages as the window.
\<close>

theorem handle_memory_fifo:
  "snd (evict (max_short_memory s)
          (short_memory s @ [\<lparr>role = User, content = u\<rparr>, \<lparr>role = Assistant, content = a\<rparr>]) [])
     = (drop (nat (int (length (short_memory s)) + 2 - max_short_memory s))
          (short_memory s @ [\<lparr>role = User, content = u\<rparr>, \<lparr>role = Assistant, content = a\<rparr>]),
        take (nat (int (length (short_memory s)) + 2 - max_short_memory s))
          (short_memory s @ [\<lparr>role = User, content = u\<rparr>, \<lparr>role = Assistant, content = a\<rparr>]))
   \<and> short_memory (snd (handle_memory u a s))
     = drop (nat (int (length (short_memory s)) + 2 - max_short_memory s))
          (short_memory s @ [\<lparr>role = User, content = u\<rparr>, \<lparr>role = Assistant, content = a\<rparr>])"
  by (simp only: evict_closed handle_memory_window window_shift snd_conv append_Nil)

text \<open>
  C6. The tool grammar on the trimmed reply: \<^verbatim>\<open>Echo(test)\<close> gives the name
  \<^verbatim>\<open>Echo\<close> and the argument \<^verbatim>\<open>test\<close>, \<^verbatim>\<open>Echo()\<close> gives \<^verbatim>\<open>Echo\<close> and the empty
  argument, \<^verbatim>\<open>just text\<close> does not match, and then the reply itself is the answer,
  for any registry and as the result of a whole turn.
\<close>

theorem tool_grammar_examples:
  "tool_call_match (strip ''Echo(test)'') = Some (''Echo'', ''test'')
   \<and> tool_call_match (strip ''Echo()'') = Some (''Echo'', [])
   \<and> tool_call_match (strip ''just text'') = None
   \<and> process_response registry ''just text'' = Inr ''just text''
   \<and> fst (chat_completion ''hi'' (example_agent 20 True False ''just text'')) = Inr ''just text''"
proof (intro conjI)
  show "tool_call_match (strip ''Echo(test)'') = Some (''Echo'', ''test'')" by code_simp
  show "tool_call_match (strip ''Echo()'') = Some (''Echo'', [])" by code_simp
  show m: "tool_call_match (strip ''just text'') = None" by code_simp
  have s: "strip ''just text'' = ''just text''" by code_simp
  show "process_response registry ''just text'' = Inr ''just text''"
    unfolding process_response_def m by (simp add: s)
  show "fst (chat_completion ''hi'' (example_agent 20 True False ''just text'')) = Inr ''just text''"
    by code_simp
qed

text \<open>
  C7. With long-term memory disabled, a memory update leaves the summary as it was,
  whether or not it evicts.
\<close>

theorem handle_memory_keeps_summary:
  "disable_long_memory s \<Longrightarrow> long_memory (snd (handle_memory u a s)) = long_memory s"
  by (simp add: handle_memory_closed Let_def)

theorem handle_memory_keeps_summary_witness:
  "disable_long_memory (example_agent 1 True False ''Hello, world!'')
   \<and> long_memory (snd (handle_memory ''hi'' ''Hello, world!'' (example_agent 1 True False ''Hello, world!'')))
       = long_memory (example_agent 1 True False ''Hello, world!'')"
proof -
  have h: "disable_long_memory (example_agent 1 True False ''Hello, world!'')"
    by code_simp
  show ?thesis
    by (rule conjI [OF h handle_memory_keeps_summary [OF h]])
qed




text \<open>
  C9. The prompt of the primary call, in this order: the system identity; the long-term
  summary, under its heading, if long-term memory is enabled and the summary is not
  empty; if the window is not empty, the heading \<^verbatim>\<open>Recent Interactions:\<close> and for
  each message of the window, in order, a system message with the line
  \<^verbatim>\<open>Role: content\<close>, the role capitalised; the user message.
\<close>

theorem build_prompt_order:
  "build_prompt s user_input =
     [\<lparr>role = System, content = core_identity s\<rparr>]
     @ (if \<not> disable_long_memory s \<and> long_memory s \<noteq> []
        then [\<lparr>role = System, content = ''Long-Term Memory:'' @ [CHR 0x0A] @ long_memory s\<rparr>]
        else [])
     @ (if short_memory s \<noteq> []
        then \<lparr>role = System, content = ''Recent Interactions:''\<rparr>
             # map (\<lambda>m. \<lparr>role = System,
                          content = (case role m of System \<Rightarrow> ''System'' | User \<Rightarrow> ''User''
                                     | Assistant \<Rightarrow> ''Assistant'')
                                    @ '': '' @ content m\<rparr>)
                 (short_memory s)
        else [])
     @ [\<lparr>role = User, content = user_input\<rparr>]"
  by (simp add: build_prompt_def Let_def foldl_append_map format_message_text newline_def)



end
